theory Spec2Isabelle
  imports Main
begin

section \<open>The data-access layer of the recruitment server\<close>

text \<open>
  The class \<^verbatim>\<open>DAO\<close> (the larger of the two versions among the sources) is the only
  place that talks to the relational database, through the Sequelize library. The
  embedding below keeps the database as a value: three tables as lists of rows, in
  insertion order, and the two id generators. Every operation of the class takes the
  database and returns its result together with the database it leaves behind.

  What is taken for granted about the environment:
  \<^item> a statement reads and writes the tables as SQL does; it is rejected only when the
    rows it inserts violate the schema. The schema is declared in the model files,
    which are not among the sources, so what it rejects is a parameter (\<open>schema\<close>);
  \<^item> a transaction works on a copy of the tables; commit installs the copy, rollback
    drops it. Gaps that a rolled back insert leaves in an id generator are not
    modelled. The schema rejects no update of a status, a version or an
    experience value;
  \<^item> numbers are the integers (the version counter and the ids are far below
    \<open>2^53\<close>, where JavaScript numbers are exact); dates are the strings received;
  \<^item> an exception is a value of \<open>js_error\<close>, and an operation that can throw returns
    a sum with the error on the left.
\<close>

subsection \<open>Errors\<close>

datatype js_error =
    Error string
  | TypeError string
  | ReferenceError string
  | AssertionError string
  | DatabaseError string

text \<open>\<^verbatim>\<open>error.message\<close>\<close>

fun message :: "js_error \<Rightarrow> string" where
  "message (Error m) = m"
| "message (TypeError m) = m"
| "message (ReferenceError m) = m"
| "message (AssertionError m) = m"
| "message (DatabaseError m) = m"

text \<open>
  The messages of the engine's own errors (V8's wording): reading a property of
  \<^verbatim>\<open>null\<close>, destructuring \<^verbatim>\<open>null\<close>, and evaluating an identifier that is not
  declared.
\<close>

definition null_property_message :: "string \<Rightarrow> string" where
  "null_property_message p = ''Cannot read property '' @ [CHR 0x27] @ p @ [CHR 0x27] @ '' of null''"

definition destructure_null_message :: "string \<Rightarrow> string" where
  "destructure_null_message p =
     ''Cannot destructure property '' @ [CHR 0x27] @ p @ [CHR 0x27] @
     '' of '' @ [CHR 0x27] @ ''(intermediate value)'' @ [CHR 0x27] @ '' as it is null.''"

definition not_defined_message :: "string \<Rightarrow> string" where
  "not_defined_message x = x @ '' is not defined''"

text \<open>A number in a string concatenation: its decimal digits.\<close>

fun show_nat :: "nat \<Rightarrow> string" where
  "show_nat n =
     (if n < 10 then [''0123456789'' ! n]
      else show_nat (n div 10) @ [''0123456789'' ! (n mod 10)])"

definition show_int :: "int \<Rightarrow> string" where
  "show_int i = (if i < 0 then CHR ''-'' # show_nat (nat (- i)) else show_nat (nat i))"

text \<open>
  Reading the digits back; it serves to show that the digits determine the number.
\<close>

definition read_nat :: "string \<Rightarrow> nat" where
  "read_nat s = foldl (\<lambda>a c. 10 * a + (of_char c - 48)) 0 s"

subsection \<open>Tables\<close>

text \<open>
  A person row. \<open>role_id\<close> is \<open>None\<close> when the insert gave no role.
\<close>

record person =
  person_id :: int
  name :: string
  surname :: string
  ssn :: string
  email :: string
  password :: string
  role_id :: "int option"
  username :: string

text \<open>
  A competence profile row; (person, competence) is its key. The person reference is
  the value the caller destructured from a DTO, \<open>None\<close> when that was
  \<^verbatim>\<open>undefined\<close>.
\<close>

record competence_profile =
  cp_person_id :: "int option"
  competence_id :: int
  years_of_experience :: int

record availability =
  availability_id :: int
  av_person_id :: "int option"
  from_date :: string
  to_date :: string
  application_status :: string
  version_number :: int

record db =
  persons :: "person list"
  competence_profiles :: "competence_profile list"
  availabilities :: "availability list"
  person_seq :: int
  availability_seq :: int

text \<open>
  Modelled from the spec: the model definitions (\<^verbatim>\<open>model/person\<close>,
  \<^verbatim>\<open>model/competenceProfile\<close>, \<^verbatim>\<open>model/availability\<close>) are not among the sources.
  What their columns and constraints refuse is a parameter: for a row to insert, the
  message of the database error, or \<open>None\<close> when the row is accepted. The spec gives
  the competence profile table the composite key (person, competence), and a new
  availability the status "unhandled".
\<close>

record schema =
  Person_reject :: "person list \<Rightarrow> person \<Rightarrow> string option"
  CompetenceProfile_reject :: "competence_profile \<Rightarrow> string option"
  Availability_reject :: "availability \<Rightarrow> string option"

definition Availability_default_status :: string where
  "Availability_default_status = ''unhandled''"

subsection \<open>Validators (util/validators.js)\<close>

text \<open>
  \<^verbatim>\<open>validator.isEmpty\<close> and \<^verbatim>\<open>validator.isAlphanumeric\<close> (locale en-US) of the
  validator package. The values checked here are strings already, so
  \<^verbatim>\<open>Validators.isString\<close> passes. A validator returns the assertion error it throws.
\<close>

definition isEmpty :: "string \<Rightarrow> bool" where
  "isEmpty s = (s = [])"

definition isAlphanumeric :: "string \<Rightarrow> bool" where
  "isAlphanumeric s =
     (s \<noteq> [] \<and>
      list_all (\<lambda>c. c \<in> set ''0123456789abcdefghijklmnopqrstuvwxyzABCDEFGHIJKLMNOPQRSTUVWXYZ'') s)"

definition isStringNonZeroLength :: "string \<Rightarrow> string \<Rightarrow> js_error option" where
  "isStringNonZeroLength v varName =
     (if isEmpty v then Some (AssertionError (varName @ '' needs to have non-zero length.''))
      else None)"

definition isAlphanumericString :: "string \<Rightarrow> string \<Rightarrow> js_error option" where
  "isAlphanumericString v varName =
     (if isAlphanumeric v then None
      else Some (AssertionError (varName @ '' needs to only contain letters and numbers.'')))"

subsection \<open>Person queries\<close>

text \<open>
  A model instance as \<^verbatim>\<open>Person.findOne\<close> returns it: the attributes the query
  selected, the others \<^verbatim>\<open>undefined\<close> (\<open>None\<close>).
\<close>

record person_model =
  m_person_id :: "int option"
  m_name :: "string option"
  m_surname :: "string option"
  m_ssn :: "string option"
  m_email :: "string option"
  m_password :: "string option"
  m_role_id :: "int option"
  m_username :: "string option"

record PersonDTO =
  dto_person_id :: "int option"
  dto_name :: "string option"
  dto_surname :: "string option"
  dto_ssn :: "string option"
  dto_email :: "string option"
  dto_password :: "string option"
  dto_role_id :: "int option"
  dto_username :: "string option"

definition Person_attributes :: "string list" where
  "Person_attributes =
     [''person_id'', ''name'', ''surname'', ''ssn'', ''email'', ''password'', ''role_id'', ''username'']"

definition select_attributes :: "string list \<Rightarrow> person \<Rightarrow> person_model" where
  "select_attributes attrs p =
     \<lparr>m_person_id = (if ''person_id'' \<in> set attrs then Some (person_id p) else None),
      m_name = (if ''name'' \<in> set attrs then Some (name p) else None),
      m_surname = (if ''surname'' \<in> set attrs then Some (surname p) else None),
      m_ssn = (if ''ssn'' \<in> set attrs then Some (ssn p) else None),
      m_email = (if ''email'' \<in> set attrs then Some (email p) else None),
      m_password = (if ''password'' \<in> set attrs then Some (password p) else None),
      m_role_id = (if ''role_id'' \<in> set attrs then role_id p else None),
      m_username = (if ''username'' \<in> set attrs then Some (username p) else None)\<rparr>"

text \<open>
  \<^verbatim>\<open>Person.findOne({where, attributes})\<close>: the first row that satisfies the
  condition, with the selected attributes, or \<^verbatim>\<open>null\<close>.
\<close>

definition Person_findOne :: "(person \<Rightarrow> bool) \<Rightarrow> string list \<Rightarrow> person list \<Rightarrow> person_model option" where
  "Person_findOne cond attrs rows = map_option (select_attributes attrs) (find cond rows)"

text \<open>
  Modelled from the spec: \<^verbatim>\<open>model/dtoFactory\<close> and \<^verbatim>\<open>model/personDTO\<close> are not
  among the sources; the spec has DTO assembly reshape a row with no business rule.
  The function follows \<^verbatim>\<open>createPersonDto\<close> of the older DAO
  (integration/dao.js), which copies the eight attributes of the model instance.
\<close>

definition createPersonDto :: "person_model \<Rightarrow> PersonDTO" where
  "createPersonDto personModel =
     \<lparr>dto_person_id = m_person_id personModel,
      dto_name = m_name personModel,
      dto_surname = m_surname personModel,
      dto_ssn = m_ssn personModel,
      dto_email = m_email personModel,
      dto_password = m_password personModel,
      dto_role_id = m_role_id personModel,
      dto_username = m_username personModel\<rparr>"

text \<open>
  The value of a search parameter, and the condition \<^verbatim>\<open>{[key]: param}\<close>. The class
  searches by \<^verbatim>\<open>person_id\<close>, \<^verbatim>\<open>email\<close> and \<^verbatim>\<open>username\<close>.
\<close>

datatype param = Num int | Str string

definition person_column :: "person \<Rightarrow> string \<Rightarrow> param option" where
  "person_column p key =
     (if key = ''person_id'' then Some (Num (person_id p))
      else if key = ''email'' then Some (Str (email p))
      else if key = ''username'' then Some (Str (username p))
      else None)"

definition findPersonByParameter :: "db \<Rightarrow> string \<Rightarrow> param \<Rightarrow> PersonDTO option" where
  "findPersonByParameter d key v =
     (case Person_findOne (\<lambda>p. person_column p key = Some v) Person_attributes (persons d) of
        None \<Rightarrow> None
      | Some personModel \<Rightarrow> Some (createPersonDto personModel))"

definition findPersonByUsername :: "db \<Rightarrow> string \<Rightarrow> js_error + PersonDTO option" where
  "findPersonByUsername d u =
     (case isStringNonZeroLength u ''username'' of
        Some e \<Rightarrow> Inl e
      | None \<Rightarrow>
          (case isAlphanumericString u ''username'' of
             Some e \<Rightarrow> Inl e
           | None \<Rightarrow> Inr (findPersonByParameter d ''username'' (Str u))))"

text \<open>
  The authentication data of a request: \<^verbatim>\<open>auth.username\<close> and \<^verbatim>\<open>auth.email\<close>,
  each possibly absent. A string is truthy when it is present and not empty; \<open>truthy\<close>
  keeps such a string.

  \<^verbatim>\<open>findPersonIdByAuth\<close> has no \<^verbatim>\<open>try\<close>: destructuring the \<^verbatim>\<open>null\<close> of an unknown
  person throws a TypeError, and its last line evaluates \<^verbatim>\<open>error.message\<close> where no
  \<^verbatim>\<open>error\<close> is in scope, which throws a ReferenceError before the \<^verbatim>\<open>Error\<close> is built.
\<close>

record auth =
  auth_username :: "string option"
  auth_email :: "string option"

definition truthy :: "string option \<Rightarrow> string option" where
  "truthy v = (case v of None \<Rightarrow> None | Some s \<Rightarrow> if s = [] then None else Some s)"

definition auth_key :: "auth \<Rightarrow> (string \<times> string) option" where
  "auth_key a =
     (case truthy (auth_username a) of
        Some u \<Rightarrow> Some (''username'', u)
      | None \<Rightarrow>
          (case truthy (auth_email a) of
             Some e \<Rightarrow> Some (''email'', e)
           | None \<Rightarrow> None))"

definition findPersonIdByAuth :: "db \<Rightarrow> auth \<Rightarrow> js_error + int option" where
  "findPersonIdByAuth d a =
     (case auth_key a of
        Some (key, v) \<Rightarrow>
          (case findPersonByParameter d key (Str v) of
             None \<Rightarrow> Inl (TypeError (destructure_null_message ''person_id''))
           | Some dto \<Rightarrow> Inr (dto_person_id dto))
      | None \<Rightarrow> Inl (ReferenceError (not_defined_message ''error'')))"

subsection \<open>savePerson\<close>

text \<open>
  The object a registration passes: the six fields and, possibly, a role.
  \<^verbatim>\<open>{...person, role_id: 2}\<close> overwrites the role; \<^verbatim>\<open>Person.create\<close> inserts the row
  under the next id, unless the schema rejects it.
\<close>

record person_input =
  in_name :: string
  in_surname :: string
  in_ssn :: string
  in_email :: string
  in_password :: string
  in_username :: string
  in_role_id :: "int option"

definition Person_create :: "schema \<Rightarrow> person_input \<Rightarrow> db \<Rightarrow> string + db" where
  "Person_create sch v d =
     (let row = \<lparr>person_id = person_seq d, name = in_name v, surname = in_surname v,
                 ssn = in_ssn v, email = in_email v, password = in_password v,
                 role_id = in_role_id v, username = in_username v\<rparr>
      in case Person_reject sch (persons d) row of
           Some m \<Rightarrow> Inl m
         | None \<Rightarrow> Inr (d\<lparr>persons := persons d @ [row], person_seq := person_seq d + 1\<rparr>))"

definition savePerson :: "schema \<Rightarrow> db \<Rightarrow> person_input \<Rightarrow> (js_error + string) \<times> db" where
  "savePerson sch d person =
     (case Person_create sch (person\<lparr>in_role_id := Some 2\<rparr>) d of
        Inl m \<Rightarrow> (Inl (Error (''Could not create person.'' @ m)), d)
      | Inr d' \<Rightarrow> (Inr ''success'', d'))"

subsection \<open>login\<close>

record credentials =
  cred_username :: string
  cred_password :: string

definition login :: "db \<Rightarrow> credentials \<Rightarrow> PersonDTO option" where
  "login d person =
     (case Person_findOne
             (\<lambda>p. username p = cred_username person \<and> password p = cred_password person)
             [''username'', ''email'', ''role_id''] (persons d) of
        None \<Rightarrow> None
      | Some personModel \<Rightarrow> Some (createPersonDto personModel))"

subsection \<open>updateApplication\<close>

record update_request =
  req_availability_id :: int
  req_application_status :: string
  req_version_number :: int

text \<open>\<^verbatim>\<open>Availability.findByPk\<close> and \<^verbatim>\<open>Availability.update\<close> on one id.\<close>

definition findByPk :: "availability list \<Rightarrow> int \<Rightarrow> availability option" where
  "findByPk rows k = find (\<lambda>a. availability_id a = k) rows"

definition Availability_update :: "string \<Rightarrow> int \<Rightarrow> int \<Rightarrow> availability list \<Rightarrow> availability list" where
  "Availability_update status v k rows =
     map (\<lambda>a. if availability_id a = k
               then a\<lparr>application_status := status, version_number := v\<rparr> else a) rows"

text \<open>
  The function awaits twice: the read of the current version, then the write. The first
  part runs up to the write and yields \<^verbatim>\<open>nextVersionNumber\<close>, or what it throws:
  the TypeError of reading \<^verbatim>\<open>version_number\<close> of \<^verbatim>\<open>null\<close> when there is no such
  row, or the error of an expired version. The \<^verbatim>\<open>catch\<close> throws a new error under
  the prefix of the operation.

  Between the read and the write the call waits, and other calls run. \<open>between\<close> is
  what they have done to the database by the time the write is executed (the identity
  for a call that nothing overtakes); the write acts on the database it then finds. A
  call that fails has made no second statement.
\<close>

definition updateApplication_read :: "db \<Rightarrow> update_request \<Rightarrow> js_error + int" where
  "updateApplication_read d r =
     (case findByPk (availabilities d) (req_availability_id r) of
        None \<Rightarrow> Inl (TypeError (null_property_message ''version_number''))
      | Some currentVersion \<Rightarrow>
          if version_number currentVersion \<noteq> req_version_number r
          then Inl (Error (''Version number expired. Current version: '' @
                 show_int (version_number currentVersion)))
          else Inr (req_version_number r + 1))"

definition updateApplication_write :: "db \<Rightarrow> update_request \<Rightarrow> int \<Rightarrow> db" where
  "updateApplication_write d r nextVersionNumber =
     d\<lparr>availabilities :=
         Availability_update (req_application_status r) nextVersionNumber
           (req_availability_id r) (availabilities d)\<rparr>"

definition updateApplication_catch :: "js_error \<Rightarrow> js_error" where
  "updateApplication_catch error = Error (''Could not update application'' @ message error)"

definition updateApplication ::
    "(db \<Rightarrow> db) \<Rightarrow> db \<Rightarrow> update_request \<Rightarrow> (js_error + string) \<times> db" where
  "updateApplication between d r =
     (case updateApplication_read d r of
        Inl error \<Rightarrow> (Inl (updateApplication_catch error), d)
      | Inr nextVersionNumber \<Rightarrow>
          (Inr ''success'', updateApplication_write (between d) r nextVersionNumber))"

text \<open>
  Two calls in flight at once, step by step. JavaScript runs one continuation at a
  time, and a call gives way only at an \<^verbatim>\<open>await\<close>: a call is before its read,
  between its read and its write, or has returned. \<open>resume\<close> lets the database answer the statement a call
  waits for and runs the call to its next \<^verbatim>\<open>await\<close>; \<open>interleave\<close> resumes two calls
  in a given order (\<open>True\<close>: the first call, \<open>False\<close>: the second).
\<close>

datatype update_call =
    Pending update_request
  | Writing update_request int
  | Returned "js_error + string"

fun resume :: "db \<Rightarrow> update_call \<Rightarrow> update_call \<times> db" where
  "resume d (Pending r) =
     (case updateApplication_read d r of
        Inl error \<Rightarrow> (Returned (Inl (updateApplication_catch error)), d)
      | Inr nextVersionNumber \<Rightarrow> (Writing r nextVersionNumber, d))"
| "resume d (Writing r nextVersionNumber) =
     (Returned (Inr ''success''), updateApplication_write d r nextVersionNumber)"
| "resume d (Returned x) = (Returned x, d)"

fun interleave :: "bool list \<Rightarrow> db \<Rightarrow> update_call \<Rightarrow> update_call \<Rightarrow> (update_call \<times> update_call) \<times> db" where
  "interleave [] d a b = ((a, b), d)"
| "interleave (True # order) d a b = (case resume d a of (a', d') \<Rightarrow> interleave order d' a' b)"
| "interleave (False # order) d a b = (case resume d b of (b', d') \<Rightarrow> interleave order d' a b')"

subsection \<open>submitApplication\<close>

record competency =
  c_competence_id :: int
  c_years_of_experience :: int

record period =
  p_from_date :: string
  p_to_date :: string

record submission =
  sub_username :: string
  sub_competencies :: "competency list"
  sub_periods :: "period list"

text \<open>
  \<^verbatim>\<open>bulkCreate\<close>: one insert statement for all rows, rejected as a whole when the
  schema rejects a row. With \<^verbatim>\<open>ignoreDuplicates\<close> a row whose key is in the table
  (or was inserted earlier by the same statement) is skipped.
\<close>

definition first_rejection :: "('a \<Rightarrow> string option) \<Rightarrow> 'a list \<Rightarrow> string option" where
  "first_rejection chk rows = (case List.map_filter chk rows of [] \<Rightarrow> None | m # _ \<Rightarrow> Some m)"

definition profile_key :: "competence_profile \<Rightarrow> int option \<times> int" where
  "profile_key r = (cp_person_id r, competence_id r)"

definition insert_ignore :: "competence_profile list \<Rightarrow> competence_profile \<Rightarrow> competence_profile list" where
  "insert_ignore tbl r =
     (if profile_key r \<in> set (map profile_key tbl) then tbl else tbl @ [r])"

definition CompetenceProfile_bulkCreate ::
    "schema \<Rightarrow> competence_profile list \<Rightarrow> competence_profile list \<Rightarrow> string + competence_profile list" where
  "CompetenceProfile_bulkCreate sch rows tbl =
     (case first_rejection (CompetenceProfile_reject sch) rows of
        Some m \<Rightarrow> Inl m
      | None \<Rightarrow> Inr (foldl insert_ignore tbl rows))"

text \<open>
  \<^verbatim>\<open>CompetenceProfile.update({years_of_experience}, {where: {person_id, competence_id}})\<close>
\<close>

definition CompetenceProfile_update :: "competence_profile \<Rightarrow> competence_profile list \<Rightarrow> competence_profile list" where
  "CompetenceProfile_update profile tbl =
     map (\<lambda>r. if cp_person_id r = cp_person_id profile \<and> competence_id r = competence_id profile
               then r\<lparr>years_of_experience := years_of_experience profile\<rparr> else r) tbl"

text \<open>
  The updates are started by \<^verbatim>\<open>competenceProfiles.map(async profile => ...)\<close>; the
  promises are neither awaited nor kept, and the function goes on to the next
  statement and to \<^verbatim>\<open>t.commit()\<close>. The code does not decide whether an update has
  been handed to the connection of the transaction by the time commit is called: one
  that has is executed before the commit, one that has not is refused by Sequelize
  (the transaction is finished) and the rejection is seen by nobody. \<open>reached i\<close> says
  that the update of the \<open>i\<close>-th profile is handed over in time.
\<close>

fun fire_updates ::
    "(nat \<Rightarrow> bool) \<Rightarrow> nat \<Rightarrow> competence_profile list \<Rightarrow> competence_profile list \<Rightarrow> competence_profile list" where
  "fire_updates reached i [] tbl = tbl"
| "fire_updates reached i (profile # rest) tbl =
     fire_updates reached (Suc i) rest
       (if reached i then CompetenceProfile_update profile tbl else tbl)"

text \<open>
  The values \<^verbatim>\<open>{person_id, ...p, version_number: 0}\<close> of a new availability, and the
  rows \<^verbatim>\<open>Availability.bulkCreate\<close> builds from them: the next ids, and the default
  status, which the values do not set.
\<close>

record availability_values =
  v_person_id :: "int option"
  v_from_date :: string
  v_to_date :: string
  v_version_number :: int

fun Availability_build :: "int \<Rightarrow> availability_values list \<Rightarrow> availability list" where
  "Availability_build k [] = []"
| "Availability_build k (v # vs) =
     \<lparr>availability_id = k, av_person_id = v_person_id v, from_date = v_from_date v,
      to_date = v_to_date v, application_status = Availability_default_status,
      version_number = v_version_number v\<rparr> # Availability_build (k + 1) vs"

definition Availability_bulkCreate :: "schema \<Rightarrow> availability_values list \<Rightarrow> db \<Rightarrow> string + db" where
  "Availability_bulkCreate sch vs t =
     (let rows = Availability_build (availability_seq t) vs
      in case first_rejection (Availability_reject sch) rows of
           Some m \<Rightarrow> Inl m
         | None \<Rightarrow>
             Inr (t\<lparr>availabilities := availabilities t @ rows,
                    availability_seq := availability_seq t + int (length rows)\<rparr>))"

text \<open>
  The body of the \<^verbatim>\<open>try\<close>, on the tables \<open>t\<close> of the transaction (the person is
  looked up outside the transaction; in one call both see the same rows). It yields the
  tables to commit, or what was thrown.
\<close>

definition submitApplication_try :: "schema \<Rightarrow> (nat \<Rightarrow> bool) \<Rightarrow> db \<Rightarrow> submission \<Rightarrow> js_error + db" where
  "submitApplication_try sch reached t s =
     (case findPersonByUsername t (sub_username s) of
        Inl e \<Rightarrow> Inl e
      | Inr None \<Rightarrow> Inl (TypeError (destructure_null_message ''person_id''))
      | Inr (Some dto) \<Rightarrow>
          (let pid = dto_person_id dto;
               competenceProfiles =
                 map (\<lambda>c. \<lparr>cp_person_id = pid, competence_id = c_competence_id c,
                            years_of_experience = c_years_of_experience c\<rparr>) (sub_competencies s);
               availabilities' =
                 map (\<lambda>p. \<lparr>v_person_id = pid, v_from_date = p_from_date p,
                            v_to_date = p_to_date p, v_version_number = 0\<rparr>) (sub_periods s)
           in case CompetenceProfile_bulkCreate sch competenceProfiles (competence_profiles t) of
                Inl m \<Rightarrow> Inl (DatabaseError m)
              | Inr created \<Rightarrow>
                  (case Availability_bulkCreate sch availabilities'
                          (t\<lparr>competence_profiles := fire_updates reached 0 competenceProfiles created\<rparr>) of
                     Inl m \<Rightarrow> Inl (DatabaseError m)
                   | Inr t' \<Rightarrow> Inr t')))"

text \<open>
  The whole call: commit and \<^verbatim>\<open>"success"\<close>, or rollback and one error under the
  prefix of the operation. Neither \<^verbatim>\<open>t.commit()\<close> nor \<^verbatim>\<open>t.rollback()\<close> is awaited;
  the database returned is the one the call leaves once the connection has carried
  them out.
\<close>

definition submitApplication ::
    "schema \<Rightarrow> (nat \<Rightarrow> bool) \<Rightarrow> db \<Rightarrow> submission \<Rightarrow> (js_error + string) \<times> db" where
  "submitApplication sch reached d s =
     (case submitApplication_try sch reached d s of
        Inl e \<Rightarrow> (Inl (Error (''Failed to submit application.'' @ message e)), d)
      | Inr t \<Rightarrow> (Inr ''success'', t))"

subsection \<open>Example data\<close>

text \<open>
  One applicant, a schema that accepts every row but an availability whose dates are
  not ten characters long, the submission of the specification's example, a second
  submission with another experience value and no period, a submission whose second
  period is malformed, a submission of a new and a known competence with no period,
  and two status updates that present version 0.
\<close>

definition alice :: person where
  "alice = \<lparr>person_id = 1, name = ''Alice'', surname = ''Andersson'', ssn = ''199001011234'',
            email = ''alice@example.com'', password = ''secret'', role_id = Some 2,
            username = ''alice''\<rparr>"

definition db_alice :: db where
  "db_alice = \<lparr>persons = [alice], competence_profiles = [], availabilities = [],
               person_seq = 2, availability_seq = 1\<rparr>"

definition date_schema :: schema where
  "date_schema =
     \<lparr>Person_reject = (\<lambda>rows p. None),
      CompetenceProfile_reject = (\<lambda>r. None),
      Availability_reject =
        (\<lambda>a. if length (from_date a) = 10 \<and> length (to_date a) = 10 then None
              else Some ''invalid input syntax for type date'')\<rparr>"

definition first_submission :: submission where
  "first_submission =
     \<lparr>sub_username = ''alice'',
      sub_competencies = [\<lparr>c_competence_id = 3, c_years_of_experience = 2\<rparr>],
      sub_periods = [\<lparr>p_from_date = ''2024-01-01'', p_to_date = ''2024-01-10''\<rparr>]\<rparr>"

definition db_submitted :: db where
  "db_submitted =
     \<lparr>persons = [alice],
      competence_profiles = [\<lparr>cp_person_id = Some 1, competence_id = 3, years_of_experience = 2\<rparr>],
      availabilities =
        [\<lparr>availability_id = 1, av_person_id = Some 1, from_date = ''2024-01-01'',
          to_date = ''2024-01-10'', application_status = ''unhandled'', version_number = 0\<rparr>],
      person_seq = 2, availability_seq = 2\<rparr>"

definition resubmission :: submission where
  "resubmission =
     \<lparr>sub_username = ''alice'',
      sub_competencies = [\<lparr>c_competence_id = 3, c_years_of_experience = 5\<rparr>],
      sub_periods = []\<rparr>"

definition malformed_submission :: submission where
  "malformed_submission =
     \<lparr>sub_username = ''alice'',
      sub_competencies = [\<lparr>c_competence_id = 3, c_years_of_experience = 2\<rparr>],
      sub_periods = [\<lparr>p_from_date = ''2024-01-01'', p_to_date = ''2024-01-10''\<rparr>,
                     \<lparr>p_from_date = ''soon'', p_to_date = ''later''\<rparr>]\<rparr>"

definition accepted_row :: availability where
  "accepted_row =
     \<lparr>availability_id = 1, av_person_id = Some 1, from_date = ''2024-01-01'',
      to_date = ''2024-01-10'', application_status = ''accepted'', version_number = 1\<rparr>"

definition unhandled_row :: availability where
  "unhandled_row =
     \<lparr>availability_id = 1, av_person_id = Some 1, from_date = ''2024-01-01'',
      to_date = ''2024-01-10'', application_status = ''unhandled'', version_number = 0\<rparr>"

definition db_accepted :: db where
  "db_accepted = db_submitted\<lparr>availabilities := [accepted_row]\<rparr>"

definition db_overtaken :: db where
  "db_overtaken =
     db_submitted\<lparr>availabilities :=
       [\<lparr>availability_id = 1, av_person_id = Some 1, from_date = ''2024-01-01'',
         to_date = ''2024-01-10'', application_status = ''rejected'', version_number = 1\<rparr>]\<rparr>"

definition mixed_submission :: submission where
  "mixed_submission =
     \<lparr>sub_username = ''alice'',
      sub_competencies = [\<lparr>c_competence_id = 4, c_years_of_experience = 1\<rparr>,
                          \<lparr>c_competence_id = 3, c_years_of_experience = 9\<rparr>],
      sub_periods = []\<rparr>"

definition db_half_applied :: db where
  "db_half_applied =
     db_submitted\<lparr>competence_profiles :=
       [\<lparr>cp_person_id = Some 1, competence_id = 3, years_of_experience = 2\<rparr>,
        \<lparr>cp_person_id = Some 1, competence_id = 4, years_of_experience = 1\<rparr>]\<rparr>"

definition bob_input :: person_input where
  "bob_input =
     \<lparr>in_name = ''Bob'', in_surname = ''Berg'', in_ssn = ''198512245678'',
      in_email = ''bob@example.com'', in_password = ''hunter2'', in_username = ''bob'',
      in_role_id = Some 1\<rparr>"

definition bob :: person where
  "bob = \<lparr>person_id = 2, name = ''Bob'', surname = ''Berg'', ssn = ''198512245678'',
          email = ''bob@example.com'', password = ''hunter2'', role_id = Some 2,
          username = ''bob''\<rparr>"

definition accept_request :: update_request where
  "accept_request = \<lparr>req_availability_id = 1, req_application_status = ''accepted'', req_version_number = 0\<rparr>"

definition reject_request :: update_request where
  "reject_request = \<lparr>req_availability_id = 1, req_application_status = ''rejected'', req_version_number = 0\<rparr>"

section \<open>Properties\<close>

declare show_nat.simps [simp del]

lemmas update_defs =
  updateApplication_def updateApplication_read_def updateApplication_catch_def updateApplication_write_def findByPk_def
  Availability_update_def show_int_def

lemmas submit_defs =
  submitApplication_def submitApplication_try_def findPersonByUsername_def
  findPersonByParameter_def Person_findOne_def select_attributes_def createPersonDto_def
  Person_attributes_def person_column_def isStringNonZeroLength_def isAlphanumericString_def
  isEmpty_def isAlphanumeric_def CompetenceProfile_bulkCreate_def first_rejection_def
  List.map_filter_def insert_ignore_def profile_key_def CompetenceProfile_update_def
  Availability_bulkCreate_def Availability_default_status_def Let_def

lemmas example_defs =
  alice_def db_alice_def date_schema_def first_submission_def db_submitted_def
  resubmission_def malformed_submission_def accepted_row_def unhandled_row_def
  db_accepted_def bob_input_def bob_def accept_request_def reject_request_def
  db_overtaken_def mixed_submission_def db_half_applied_def

subsection \<open>Numbers in messages\<close>

text \<open>The decimal form of a number determines the number.\<close>

lemma digit_value:
  assumes "k < 10"
  shows "(of_char (''0123456789'' ! k) :: nat) = 48 + k"
proof -
  from assms have "k = 0 \<or> k = 1 \<or> k = 2 \<or> k = 3 \<or> k = 4 \<or> k = 5 \<or> k = 6 \<or> k = 7 \<or> k = 8 \<or> k = 9"
    by arith
  then show ?thesis by (elim disjE) simp_all
qed

lemma read_show_nat: "read_nat (show_nat n) = n"
proof (induction n rule: show_nat.induct)
  case (1 n)
  show ?case
  proof (cases "n < 10")
    case True
    then show ?thesis
      by (subst show_nat.simps) (simp add: read_nat_def digit_value)
  next
    case False
    with 1 have "read_nat (show_nat (n div 10)) = n div 10" by simp
    with False show ?thesis
      by (subst show_nat.simps) (simp add: read_nat_def digit_value)
  qed
qed

lemma show_nat_inj: "show_nat m = show_nat n \<Longrightarrow> m = n"
  by (metis read_show_nat)

lemma show_nat_digits: "set (show_nat n) \<subseteq> set ''0123456789''"
proof (induction n rule: show_nat.induct)
  case (1 n)
  have d: "k < 10 \<Longrightarrow> ''0123456789'' ! k \<in> set ''0123456789''" for k :: nat
    by (rule nth_mem) simp
  show ?case
  proof (cases "n < 10")
    case True
    with d [of n] show ?thesis by (subst show_nat.simps) simp
  next
    case False
    with 1 have "set (show_nat (n div 10)) \<subseteq> set ''0123456789''" by simp
    with False d [of "n mod 10"] show ?thesis by (subst show_nat.simps) simp
  qed
qed

lemma show_int_inj: "show_int i = show_int j \<Longrightarrow> i = j"
proof -
  assume eq: "show_int i = show_int j"
  have minus: "CHR ''-'' # show_nat a \<noteq> show_nat b" for a b
  proof
    assume "CHR ''-'' # show_nat a = show_nat b"
    then have "CHR ''-'' \<in> set (show_nat b)" by (metis list.set_intros(1))
    with show_nat_digits [of b] show False by auto
  qed
  show ?thesis
  proof (cases "i < 0")
    case True
    show ?thesis
    proof (cases "j < 0")
      case True
      with \<open>i < 0\<close> eq have "nat (- i) = nat (- j)" by (simp add: show_int_def show_nat_inj)
      with True \<open>i < 0\<close> show ?thesis by simp
    next
      case False
      with True eq minus show ?thesis by (simp add: show_int_def)
    qed
  next
    case False
    show ?thesis
    proof (cases "j < 0")
      case True
      with False eq minus [of "nat (- j)" "nat i"] show ?thesis by (simp add: show_int_def)
    next
      case False
      with \<open>\<not> i < 0\<close> eq have "nat i = nat j" by (simp add: show_int_def show_nat_inj)
      with False \<open>\<not> i < 0\<close> show ?thesis by simp
    qed
  qed
qed

subsection \<open>The status update\<close>

lemma find_map_same_id:
  assumes "\<And>a. availability_id (f a) = availability_id a"
  shows "find (\<lambda>a. availability_id a = k) (map (\<lambda>a. if availability_id a = k then f a else a) rows) =
         map_option f (find (\<lambda>a. availability_id a = k) rows)"
  using assms by (induction rows) auto

lemma findByPk_Availability_update:
  "findByPk (Availability_update s v k rows) k =
     map_option (\<lambda>a. a\<lparr>application_status := s, version_number := v\<rparr>) (findByPk rows k)"
  unfolding findByPk_def Availability_update_def
  by (rule find_map_same_id) simp

lemma filter_Availability_update:
  "filter (\<lambda>a. availability_id a \<noteq> k) (Availability_update s v k rows) =
   filter (\<lambda>a. availability_id a \<noteq> k) rows"
  unfolding Availability_update_def by (induction rows) auto

text \<open>
  A call that nothing overtakes: when the version the caller presents is the version of
  the row, the call returns \<^verbatim>\<open>"success"\<close> and the row holds the new status and its
  old version plus one; whenever such a call succeeds there was such a row, the
  presented version was its version, the row now holds that version plus one, and no
  row with another id has changed.
\<close>

lemma updateApplication_uninterrupted:
  "(\<forall>row. findByPk (availabilities d) (req_availability_id r) = Some row \<and>
          version_number row = req_version_number r \<longrightarrow>
      fst (updateApplication (\<lambda>d. d) d r) = Inr ''success'' \<and>
      findByPk (availabilities (snd (updateApplication (\<lambda>d. d) d r))) (req_availability_id r) =
        Some (row\<lparr>application_status := req_application_status r,
                  version_number := version_number row + 1\<rparr>)) \<and>
   (\<forall>res d'. updateApplication (\<lambda>d. d) d r = (Inr res, d') \<longrightarrow>
      (\<exists>row. findByPk (availabilities d) (req_availability_id r) = Some row \<and>
             req_version_number r = version_number row \<and>
             findByPk (availabilities d') (req_availability_id r) =
               Some (row\<lparr>application_status := req_application_status r,
                         version_number := version_number row + 1\<rparr>)) \<and>
      filter (\<lambda>a. availability_id a \<noteq> req_availability_id r) (availabilities d') =
      filter (\<lambda>a. availability_id a \<noteq> req_availability_id r) (availabilities d))"
  by (auto simp: updateApplication_def updateApplication_read_def updateApplication_catch_def
        updateApplication_write_def findByPk_Availability_update filter_Availability_update
      split: option.splits if_splits)

text \<open>
  C1. Availability 1 is at version 0. A call to reject it presents version 0 and reads
  the row; before its write is executed, a call to accept it, also presenting version
  0, reads and writes, which puts the row at version 1. The first call then writes and
  returns \<^verbatim>\<open>"success"\<close>: the write is \<^verbatim>\<open>UPDATE ... WHERE availability_id = ?\<close> with
  the version computed from what the caller presented, so this successful update takes
  the row from version 1 to version 1, not to its old value plus one.
\<close>

theorem updateApplication_overtaken:
  "updateApplication (\<lambda>d. d) db_submitted accept_request = (Inr ''success'', db_accepted) \<and>
   updateApplication (\<lambda>d. snd (updateApplication (\<lambda>d. d) d accept_request))
       db_submitted reject_request = (Inr ''success'', db_overtaken) \<and>
   map version_number (availabilities db_submitted) = [0] \<and>
   map version_number (availabilities db_accepted) = [1] \<and>
   map version_number (availabilities db_overtaken) = [1]"
  by (simp add: update_defs example_defs)

text \<open>
  C2. When the row exists and the caller presents another version than the row's
  (whatever other calls do meanwhile), the call throws an error whose message says that the version number expired and gives
  the current version of the row in decimal (which determines it, \<open>show_int_inj\<close>),
  and the database is left as it was.
\<close>

theorem updateApplication_stale_version:
  assumes "findByPk (availabilities d) (req_availability_id r) = Some row"
    and "version_number row \<noteq> req_version_number r"
  shows "updateApplication between d r =
           (Inl (Error (''Could not update application'' @
                        ''Version number expired. Current version: '' @
                        show_int (version_number row))), d)"
  using assms by (simp add: updateApplication_def updateApplication_read_def updateApplication_catch_def)

theorem updateApplication_stale_version_witness:
  "findByPk (availabilities db_accepted) (req_availability_id reject_request) = Some accepted_row \<and>
   version_number accepted_row \<noteq> req_version_number reject_request \<and>
   updateApplication (\<lambda>d. d) db_accepted reject_request =
     (Inl (Error ''Could not update applicationVersion number expired. Current version: 1''),
      db_accepted)"
  using updateApplication_stale_version [of db_accepted reject_request accepted_row "\<lambda>d. d"]
  by (simp add: findByPk_def show_int_def show_nat.simps example_defs)

text \<open>
  Repeating a successful call with the same, now stale, version fails and changes
  nothing.
\<close>

lemma updateApplication_repeated:
  assumes "updateApplication (\<lambda>d. d) d r = (Inr res, d')"
  shows "updateApplication between d' r =
           (Inl (Error (''Could not update application'' @
                        ''Version number expired. Current version: '' @
                        show_int (req_version_number r + 1))), d')"
  using assms
  by (auto simp: updateApplication_def updateApplication_read_def updateApplication_catch_def updateApplication_write_def
        findByPk_Availability_update split: option.splits if_splits)

text \<open>
  A call whose row does not exist fails on reading \<^verbatim>\<open>version_number\<close> of \<^verbatim>\<open>null\<close>;
  the TypeError is caught and thrown again under the prefix of the operation.
\<close>

lemma updateApplication_unknown_row:
  "findByPk (availabilities d) (req_availability_id r) = None \<Longrightarrow>
   updateApplication between d r =
     (Inl (Error (''Could not update application'' @ null_property_message ''version_number'')), d)"
  by (simp add: updateApplication_def updateApplication_read_def updateApplication_catch_def)

text \<open>
  The two views agree: resuming one call twice is the call that nothing overtakes, and
  a call whose read is followed by the whole of another call is the call with that
  other call in between. Two calls that both read before either writes both succeed,
  whatever the row.
\<close>

lemma updateApplication_resumed:
  "interleave [True, True] d (Pending r) b =
     ((Returned (fst (updateApplication (\<lambda>d. d) d r)), b), snd (updateApplication (\<lambda>d. d) d r))"
  by (simp add: updateApplication_def split: sum.splits)

lemma updateApplication_overtaken_steps:
  assumes "updateApplication_read d a = Inr n"
  shows "interleave [True, False, False, True] d (Pending a) (Pending b) =
     ((Returned (Inr ''success''), Returned (fst (updateApplication (\<lambda>d. d) d b))),
      snd (updateApplication (\<lambda>d. snd (updateApplication (\<lambda>d. d) d b)) d a))"
  using assms by (simp add: updateApplication_def split: sum.splits)

lemma race_general:
  assumes "findByPk (availabilities d) k = Some row"
    and "req_availability_id a = k" "req_availability_id b = k"
    and "req_version_number a = version_number row" "req_version_number b = version_number row"
  shows "fst (interleave [True, False, True, False] d (Pending a) (Pending b)) =
           (Returned (Inr ''success''), Returned (Inr ''success''))"
  using assms by (simp add: updateApplication_read_def updateApplication_catch_def)

text \<open>
  C3. Two calls present version 0 for availability 1, one to accept and one to reject.
  When both reads are answered before the first write, both calls return
  \<^verbatim>\<open>"success"\<close>: the write is \<^verbatim>\<open>UPDATE ... WHERE availability_id = ?\<close>, without the
  version, so the second writer overwrites the status of the first and the version
  ends at 1 after two successful updates. Only when the first call has written before
  the second reads does the second fail with the expired version.
\<close>

theorem updateApplication_race:
  "interleave [True, False, True, False] db_submitted (Pending accept_request) (Pending reject_request) =
     ((Returned (Inr ''success''), Returned (Inr ''success'')),
      db_submitted\<lparr>availabilities :=
        [\<lparr>availability_id = 1, av_person_id = Some 1, from_date = ''2024-01-01'',
          to_date = ''2024-01-10'', application_status = ''rejected'', version_number = 1\<rparr>]\<rparr>) \<and>
   interleave [True, True, False, False] db_submitted (Pending accept_request) (Pending reject_request) =
     ((Returned (Inr ''success''),
       Returned (Inl (Error ''Could not update applicationVersion number expired. Current version: 1''))),
      db_submitted\<lparr>availabilities :=
        [\<lparr>availability_id = 1, av_person_id = Some 1, from_date = ''2024-01-01'',
          to_date = ''2024-01-10'', application_status = ''accepted'', version_number = 1\<rparr>]\<rparr>)"
  by (simp add: update_defs db_submitted_def accept_request_def reject_request_def show_nat.simps)

subsection \<open>Looking a person up\<close>

lemma username_condition:
  "(\<lambda>p. person_column p ''username'' = Some (Str u)) = (\<lambda>p. username p = u)"
  by (simp add: person_column_def fun_eq_iff)

lemma findPersonByParameter_username:
  "findPersonByParameter d ''username'' (Str u) =
     map_option (\<lambda>p. createPersonDto (select_attributes Person_attributes p))
       (find (\<lambda>p. username p = u) (persons d))"
  by (simp add: findPersonByParameter_def Person_findOne_def username_condition split: option.splits)

lemma dto_person_id_all:
  "dto_person_id (createPersonDto (select_attributes Person_attributes p)) = Some (person_id p)"
  by (simp add: createPersonDto_def select_attributes_def Person_attributes_def)

lemma findPersonByUsername_Some:
  assumes "findPersonByUsername d u = Inr (Some dto)"
  shows "\<exists>p. find (\<lambda>p. username p = u) (persons d) = Some p \<and> dto_person_id dto = Some (person_id p)"
  using assms
  by (auto simp: findPersonByUsername_def findPersonByParameter_username dto_person_id_all
      split: option.splits)

lemma findPersonByUsername_unknown:
  assumes "find (\<lambda>p. username p = u) (persons d) = None"
  shows "findPersonByUsername d u =
     (if isEmpty u then Inl (AssertionError (''username'' @ '' needs to have non-zero length.''))
      else if isAlphanumeric u then Inr None
      else Inl (AssertionError (''username'' @ '' needs to only contain letters and numbers.'')))"
  using assms
  by (simp add: findPersonByUsername_def findPersonByParameter_username
      isStringNonZeroLength_def isAlphanumericString_def)

lemma find_holds: "find P xs = Some x \<Longrightarrow> P x \<and> x \<in> set xs"
  by (induction xs) (auto split: if_splits)

subsection \<open>Submitting an application\<close>

text \<open>
  What a submission whose username belongs to no person throws, exactly: the error of
  every failed submission, an \<^verbatim>\<open>Error\<close> under the prefix of the operation. Its cause
  is the validator's message for an empty or non-alphanumeric username, and otherwise
  the TypeError of destructuring the \<^verbatim>\<open>null\<close> that the lookup returned.
\<close>

lemma submitApplication_unknown_username_cause:
  assumes "find (\<lambda>p. username p = sub_username s) (persons d) = None"
  shows "submitApplication sch reached d s =
     (Inl (Error (''Failed to submit application.'' @
        (if isEmpty (sub_username s) then ''username needs to have non-zero length.''
         else if isAlphanumeric (sub_username s) then destructure_null_message ''person_id''
         else ''username needs to only contain letters and numbers.''))), d)"
  using findPersonByUsername_unknown [OF assms]
  by (simp add: submitApplication_def submitApplication_try_def)

text \<open>
  C5, as the code has it. A submission whose username belongs to no person fails with
  the error of the operation, an \<^verbatim>\<open>Error\<close> whose message is
  \<^verbatim>\<open>Failed to submit application.\<close> followed by a cause, and leaves the database as
  it was.
\<close>

theorem submitApplication_unknown_username_fails:
  assumes "find (\<lambda>p. username p = sub_username s) (persons d) = None"
  shows "\<exists>m. submitApplication sch reached d s =
           (Inl (Error (''Failed to submit application.'' @ m)), d)"
  using submitApplication_unknown_username_cause [OF assms] by blast

theorem submitApplication_unknown_username_fails_witness:
  "find (\<lambda>p. username p = ''bob'') (persons db_alice) = None \<and>
   (\<exists>m. submitApplication date_schema (\<lambda>i. True) db_alice
          \<lparr>sub_username = ''bob'', sub_competencies = sub_competencies first_submission,
           sub_periods = sub_periods first_submission\<rparr> =
        (Inl (Error (''Failed to submit application.'' @ m)), db_alice))"
  using submitApplication_unknown_username_fails [of
      "\<lparr>sub_username = ''bob'', sub_competencies = sub_competencies first_submission,
        sub_periods = sub_periods first_submission\<rparr>" db_alice date_schema "\<lambda>i. True"]
  by (simp add: example_defs)

text \<open>
  C5, as stated, does not hold: the error is no not-found error. For the empty
  username, which belongs to no person, the lookup is never made: the validator
  throws, and the call fails with the validator's message. For the unknown username
  \<^verbatim>\<open>bob\<close> the lookup returns \<^verbatim>\<open>null\<close> and the cause is the engine's TypeError for
  destructuring it. Both are the same \<^verbatim>\<open>Error\<close> under the same prefix as the failure
  of a known person's submission that the database rejects.
\<close>

theorem submitApplication_unknown_username_kind:
  "findPersonByUsername db_alice [] =
     Inl (AssertionError ''username needs to have non-zero length.'') \<and>
   submitApplication date_schema (\<lambda>i. True) db_alice
       \<lparr>sub_username = [], sub_competencies = [], sub_periods = []\<rparr> =
     (Inl (Error ''Failed to submit application.username needs to have non-zero length.''),
      db_alice) \<and>
   findPersonByUsername db_alice ''bob'' = Inr None \<and>
   submitApplication date_schema (\<lambda>i. True) db_alice
       \<lparr>sub_username = ''bob'', sub_competencies = [], sub_periods = []\<rparr> =
     (Inl (Error ''Failed to submit application.Cannot destructure property 'person_id' of '(intermediate value)' as it is null.''),
      db_alice) \<and>
   submitApplication date_schema (\<lambda>i. True) db_alice malformed_submission =
     (Inl (Error ''Failed to submit application.invalid input syntax for type date''), db_alice)"
  by (simp add: submit_defs example_defs destructure_null_message_def)

lemma keys_insert_ignore:
  "set (map profile_key (insert_ignore tbl r)) = insert (profile_key r) (set (map profile_key tbl))"
  by (auto simp: insert_ignore_def)

lemma distinct_insert_ignore:
  "distinct (map profile_key tbl) \<Longrightarrow> distinct (map profile_key (insert_ignore tbl r))"
  by (auto simp: insert_ignore_def)

lemma keys_foldl_insert_ignore:
  "set (map profile_key (foldl insert_ignore tbl rows)) =
     set (map profile_key tbl) \<union> set (map profile_key rows)"
proof (induction rows arbitrary: tbl)
  case Nil
  show ?case by simp
next
  case (Cons r rows)
  show ?case
    using Cons.IH [of "insert_ignore tbl r"] by (auto simp: insert_ignore_def)
qed

lemma distinct_foldl_insert_ignore:
  "distinct (map profile_key tbl) \<Longrightarrow> distinct (map profile_key (foldl insert_ignore tbl rows))"
  by (induction rows arbitrary: tbl) (simp_all add: distinct_insert_ignore)

lemma keys_CompetenceProfile_update:
  "map profile_key (CompetenceProfile_update p tbl) = map profile_key tbl"
  by (simp add: CompetenceProfile_update_def profile_key_def)

lemma keys_fire_updates:
  "map profile_key (fire_updates reached i ps tbl) = map profile_key tbl"
  by (induction ps arbitrary: i tbl) (simp_all add: keys_CompetenceProfile_update)

lemma count_profiles:
  assumes "distinct (map profile_key tbl)" and "distinct cs"
    and "Pair pid ` set cs \<subseteq> set (map profile_key tbl)"
  shows "length (filter (\<lambda>r. cp_person_id r = pid \<and> competence_id r \<in> set cs) tbl) = length cs"
proof -
  let ?Q = "\<lambda>k. fst k = pid \<and> snd k \<in> set cs"
  have "length (filter (\<lambda>r. cp_person_id r = pid \<and> competence_id r \<in> set cs) tbl) =
        length (filter ?Q (map profile_key tbl))"
    by (simp add: filter_map o_def profile_key_def)
  also have "\<dots> = card ({k. ?Q k} \<inter> set (map profile_key tbl))"
    using assms(1) by (rule distinct_length_filter)
  also have "{k. ?Q k} \<inter> set (map profile_key tbl) = Pair pid ` set cs"
  proof
    show "{k. ?Q k} \<inter> set (map profile_key tbl) \<subseteq> Pair pid ` set cs"
    proof
      fix k assume "k \<in> {k. ?Q k} \<inter> set (map profile_key tbl)"
      then have "k = (pid, snd k)" and "snd k \<in> set cs"
        by (auto simp: prod_eq_iff)
      then show "k \<in> Pair pid ` set cs"
        by (metis imageI)
    qed
    show "Pair pid ` set cs \<subseteq> {k. ?Q k} \<inter> set (map profile_key tbl)"
      using assms(3) by auto
  qed
  also have "card (Pair pid ` set cs) = card (set cs)"
    by (rule card_image) (simp add: inj_on_def)
  also have "\<dots> = length cs"
    using assms(2) by (rule distinct_card)
  finally show ?thesis .
qed

lemma length_Availability_build: "length (Availability_build k vs) = length vs"
  by (induction vs arbitrary: k) simp_all

text \<open>What a successful call has done.\<close>

lemma submitApplication_success:
  assumes "submitApplication sch reached d s = (Inr res, d')"
  shows "\<exists>p created. find (\<lambda>p. username p = sub_username s) (persons d) = Some p \<and>
     res = ''success'' \<and>
     CompetenceProfile_bulkCreate sch
        (map (\<lambda>c. \<lparr>cp_person_id = Some (person_id p), competence_id = c_competence_id c,
                   years_of_experience = c_years_of_experience c\<rparr>) (sub_competencies s))
        (competence_profiles d) = Inr created \<and>
     persons d' = persons d \<and>
     competence_profiles d' =
       fire_updates reached 0
         (map (\<lambda>c. \<lparr>cp_person_id = Some (person_id p), competence_id = c_competence_id c,
                   years_of_experience = c_years_of_experience c\<rparr>) (sub_competencies s)) created \<and>
     availabilities d' = availabilities d @
       Availability_build (availability_seq d)
         (map (\<lambda>q. \<lparr>v_person_id = Some (person_id p), v_from_date = p_from_date q,
                    v_to_date = p_to_date q, v_version_number = 0\<rparr>) (sub_periods s))"
proof -
  from assms obtain t where t: "submitApplication_try sch reached d s = Inr t" and res: "res = ''success''" and d': "d' = t"
    by (auto simp: submitApplication_def split: sum.splits)
  from t obtain dto where dto: "findPersonByUsername d (sub_username s) = Inr (Some dto)"
    by (auto simp: submitApplication_try_def split: sum.splits option.splits)
  from findPersonByUsername_Some [OF dto] obtain p where
    p: "find (\<lambda>p. username p = sub_username s) (persons d) = Some p" and pid: "dto_person_id dto = Some (person_id p)"
    by blast
  from t dto pid show ?thesis
    unfolding d' res
    by (auto simp: submitApplication_try_def Let_def Availability_bulkCreate_def p
        split: sum.splits option.splits)
qed

lemma Availability_build_periods:
  "map (\<lambda>a. (av_person_id a, from_date a, to_date a))
     (Availability_build k
        (map (\<lambda>q. \<lparr>v_person_id = pid, v_from_date = p_from_date q,
                    v_to_date = p_to_date q, v_version_number = 0\<rparr>) qs)) =
   map (\<lambda>q. (pid, p_from_date q, p_to_date q)) qs"
  by (induction qs arbitrary: k) simp_all

lemma Availability_build_initial:
  "\<forall>a\<in>set (Availability_build k
        (map (\<lambda>q. \<lparr>v_person_id = pid, v_from_date = p_from_date q,
                    v_to_date = p_to_date q, v_version_number = 0\<rparr>) qs)).
     version_number a = 0 \<and> application_status a = ''unhandled''"
  by (induction qs arbitrary: k) (simp_all add: Availability_default_status_def)

lemma first_submission_result:
  "submitApplication date_schema (\<lambda>i. True) db_alice first_submission = (Inr ''success'', db_submitted)"
  by (simp add: submit_defs example_defs)

lemma malformed_submission_result:
  "submitApplication date_schema (\<lambda>i. True) db_alice malformed_submission =
   (Inl (Error ''Failed to submit application.invalid input syntax for type date''), db_alice)"
  by (simp add: submit_defs example_defs)

text \<open>
  The key of the competence profile table is kept by every submission, so it holds
  of every table that submissions have filled.
\<close>

lemma submitApplication_keeps_key:
  assumes pk: "distinct (map profile_key (competence_profiles d))"
  shows "distinct (map profile_key (competence_profiles (snd (submitApplication sch reached d s))))"
proof (cases "fst (submitApplication sch reached d s)")
  case (Inl e)
  then have "snd (submitApplication sch reached d s) = d"
    by (auto simp: submitApplication_def split: sum.splits)
  with pk show ?thesis by simp
next
  case (Inr res)
  then have ok: "submitApplication sch reached d s = (Inr res, snd (submitApplication sch reached d s))"
    by (metis prod.collapse)
  from submitApplication_success [OF ok] obtain p created where
    "find (\<lambda>p. username p = sub_username s) (persons d) = Some p"
    and created: "CompetenceProfile_bulkCreate sch
        (map (\<lambda>c. \<lparr>cp_person_id = Some (person_id p), competence_id = c_competence_id c,
                   years_of_experience = c_years_of_experience c\<rparr>) (sub_competencies s))
        (competence_profiles d) = Inr created"
    and profiles: "competence_profiles (snd (submitApplication sch reached d s)) =
       fire_updates reached 0
         (map (\<lambda>c. \<lparr>cp_person_id = Some (person_id p), competence_id = c_competence_id c,
                   years_of_experience = c_years_of_experience c\<rparr>) (sub_competencies s)) created"
    by blast
  from created have "created = foldl insert_ignore (competence_profiles d)
        (map (\<lambda>c. \<lparr>cp_person_id = Some (person_id p), competence_id = c_competence_id c,
                   years_of_experience = c_years_of_experience c\<rparr>) (sub_competencies s))"
    by (auto simp: CompetenceProfile_bulkCreate_def split: option.splits)
  with pk have "distinct (map profile_key created)"
    by (simp add: distinct_foldl_insert_ignore)
  then show ?thesis
    unfolding profiles by (simp add: keys_fire_updates)
qed

text \<open>
  The inserts of a submission. Let the competence profile table respect its key and the
  submission name each competence once. If the call returns \<^verbatim>\<open>"success"\<close>, the
  table holds exactly one row for the person and each of the \<open>N\<close> submitted
  competences, and the availability table has grown by \<open>M\<close> rows, one per period, in
  order, for that person; the persons are untouched. If the call throws, the database
  is the one before the call. Nothing is said here of the experience values.
\<close>

lemma submitApplication_inserts:
  assumes pk: "distinct (map profile_key (competence_profiles d))"
    and cs: "distinct (map c_competence_id (sub_competencies s))"
  shows "(\<forall>res d'. submitApplication sch reached d s = (Inr res, d') \<longrightarrow>
           (\<exists>p new. find (\<lambda>p. username p = sub_username s) (persons d) = Some p \<and>
              length (filter (\<lambda>r. cp_person_id r = Some (person_id p) \<and>
                                 competence_id r \<in> set (map c_competence_id (sub_competencies s)))
                        (competence_profiles d')) = length (sub_competencies s) \<and>
              availabilities d' = availabilities d @ new \<and>
              length new = length (sub_periods s) \<and>
              map (\<lambda>a. (av_person_id a, from_date a, to_date a)) new =
                map (\<lambda>q. (Some (person_id p), p_from_date q, p_to_date q)) (sub_periods s) \<and>
              persons d' = persons d)) \<and>
         (\<forall>e d'. submitApplication sch reached d s = (Inl e, d') \<longrightarrow> d' = d)"
proof (intro conjI allI impI)
  fix res d'
  assume ok: "submitApplication sch reached d s = (Inr res, d')"
  let ?cs = "map c_competence_id (sub_competencies s)"
  from submitApplication_success [OF ok] obtain p created where
    p: "find (\<lambda>p. username p = sub_username s) (persons d) = Some p"
    and created: "CompetenceProfile_bulkCreate sch
        (map (\<lambda>c. \<lparr>cp_person_id = Some (person_id p), competence_id = c_competence_id c,
                   years_of_experience = c_years_of_experience c\<rparr>) (sub_competencies s))
        (competence_profiles d) = Inr created"
    and persons: "persons d' = persons d"
    and profiles: "competence_profiles d' =
       fire_updates reached 0
         (map (\<lambda>c. \<lparr>cp_person_id = Some (person_id p), competence_id = c_competence_id c,
                   years_of_experience = c_years_of_experience c\<rparr>) (sub_competencies s)) created"
    and avail: "availabilities d' = availabilities d @
       Availability_build (availability_seq d)
         (map (\<lambda>q. \<lparr>v_person_id = Some (person_id p), v_from_date = p_from_date q,
                    v_to_date = p_to_date q, v_version_number = 0\<rparr>) (sub_periods s))"
    by blast
  let ?rows = "map (\<lambda>c. \<lparr>cp_person_id = Some (person_id p), competence_id = c_competence_id c,
                   years_of_experience = c_years_of_experience c\<rparr>) (sub_competencies s)"
  let ?new = "Availability_build (availability_seq d)
         (map (\<lambda>q. \<lparr>v_person_id = Some (person_id p), v_from_date = p_from_date q,
                    v_to_date = p_to_date q, v_version_number = 0\<rparr>) (sub_periods s))"
  from created have cr: "created = foldl insert_ignore (competence_profiles d) ?rows"
    by (auto simp: CompetenceProfile_bulkCreate_def split: option.splits)
  have keys: "map profile_key (competence_profiles d') = map profile_key created"
    unfolding profiles by (rule keys_fire_updates)
  have dist: "distinct (map profile_key (competence_profiles d'))"
    unfolding keys cr using pk by (rule distinct_foldl_insert_ignore)
  have rows_keys: "map profile_key ?rows = map (Pair (Some (person_id p))) ?cs"
    by (simp add: profile_key_def o_def)
  have sub: "Pair (Some (person_id p)) ` set ?cs \<subseteq> set (map profile_key (competence_profiles d'))"
    unfolding keys cr keys_foldl_insert_ignore rows_keys by auto
  have count: "length (filter (\<lambda>r. cp_person_id r = Some (person_id p) \<and> competence_id r \<in> set ?cs)
                 (competence_profiles d')) = length (sub_competencies s)"
    using count_profiles [OF dist cs sub] by simp
  have fields: "map (\<lambda>a. (av_person_id a, from_date a, to_date a)) ?new =
                map (\<lambda>q. (Some (person_id p), p_from_date q, p_to_date q)) (sub_periods s)"
    by (rule Availability_build_periods)
  have len: "length ?new = length (sub_periods s)"
    by (simp add: length_Availability_build)
  show "\<exists>p new. find (\<lambda>p. username p = sub_username s) (persons d) = Some p \<and>
              length (filter (\<lambda>r. cp_person_id r = Some (person_id p) \<and>
                                 competence_id r \<in> set (map c_competence_id (sub_competencies s)))
                        (competence_profiles d')) = length (sub_competencies s) \<and>
              availabilities d' = availabilities d @ new \<and>
              length new = length (sub_periods s) \<and>
              map (\<lambda>a. (av_person_id a, from_date a, to_date a)) new =
                map (\<lambda>q. (Some (person_id p), p_from_date q, p_to_date q)) (sub_periods s) \<and>
              persons d' = persons d"
    using p count avail len fields persons by blast
next
  fix e d'
  assume "submitApplication sch reached d s = (Inl e, d')"
  then show "d' = d"
    by (auto simp: submitApplication_def split: sum.splits)
qed

text \<open>
  C7. After a successful submission the availability table is the old one followed by
  one new row per period, and every new row has version 0 and the status
  \<^verbatim>\<open>unhandled\<close>. The version is set by the code; the status is the default of the
  model, which the values passed to \<^verbatim>\<open>bulkCreate\<close> do not set.
\<close>

theorem submitApplication_new_availabilities:
  assumes "submitApplication sch reached d s = (Inr res, d')"
  shows "\<exists>new. availabilities d' = availabilities d @ new \<and>
           length new = length (sub_periods s) \<and>
           (\<forall>a\<in>set new. version_number a = 0 \<and> application_status a = ''unhandled'')"
proof -
  from submitApplication_success [OF assms] obtain p created where
    "find (\<lambda>p. username p = sub_username s) (persons d) = Some p"
    and avail: "availabilities d' = availabilities d @
       Availability_build (availability_seq d)
         (map (\<lambda>q. \<lparr>v_person_id = Some (person_id p), v_from_date = p_from_date q,
                    v_to_date = p_to_date q, v_version_number = 0\<rparr>) (sub_periods s))"
    by blast
  show ?thesis
    unfolding avail
    using Availability_build_initial [of "availability_seq d" "Some (person_id p)" "sub_periods s"]
    by (simp add: length_Availability_build)
qed

theorem submitApplication_new_availabilities_witness:
  "submitApplication date_schema (\<lambda>i. True) db_alice first_submission = (Inr ''success'', db_submitted) \<and>
   (\<exists>new. availabilities db_submitted = availabilities db_alice @ new \<and>
      length new = length (sub_periods first_submission) \<and>
      list_all (\<lambda>a. version_number a = 0 \<and> application_status a = ''unhandled'') new)"
  using submitApplication_new_availabilities [OF first_submission_result] first_submission_result
  by (simp add: list_all_iff)

text \<open>
  What the updates do when they reach the transaction, and when they do not.
\<close>

lemma fire_updates_in_time:
  "\<forall>j. i \<le> j \<and> j < i + length ps \<longrightarrow> reached j \<Longrightarrow>
   fire_updates reached i ps tbl = foldl (\<lambda>t p. CompetenceProfile_update p t) tbl ps"
proof (induction ps arbitrary: i tbl)
  case Nil
  show ?case by simp
next
  case (Cons p ps)
  from Cons.prems have "reached i" and "\<forall>j. Suc i \<le> j \<and> j < Suc i + length ps \<longrightarrow> reached j"
    by auto
  with Cons.IH [of "Suc i"] show ?case by simp
qed

lemma fire_updates_lost:
  "\<forall>j. i \<le> j \<and> j < i + length ps \<longrightarrow> \<not> reached j \<Longrightarrow> fire_updates reached i ps tbl = tbl"
proof (induction ps arbitrary: i tbl)
  case Nil
  show ?case by simp
next
  case (Cons p ps)
  from Cons.prems have "\<not> reached i" and "\<forall>j. Suc i \<le> j \<and> j < Suc i + length ps \<longrightarrow> \<not> reached j"
    by auto
  with Cons.IH [of "Suc i"] show ?case by simp
qed

lemma updates_leave_other_keys:
  assumes "r \<in> set (foldl (\<lambda>t p. CompetenceProfile_update p t) tbl ps)"
    and "profile_key r \<notin> set (map profile_key ps)"
  shows "r \<in> set tbl"
  using assms
proof (induction ps arbitrary: tbl)
  case Nil
  then show ?case by simp
next
  case (Cons q ps)
  from Cons.prems have "r \<in> set (CompetenceProfile_update q tbl)"
    using Cons.IH [of "CompetenceProfile_update q tbl"] by simp
  moreover from Cons.prems have "profile_key r \<noteq> profile_key q" by auto
  ultimately show ?case
    by (auto simp: CompetenceProfile_update_def profile_key_def split: if_splits)
qed

lemma updates_set_years:
  assumes "r \<in> set (foldl (\<lambda>t p. CompetenceProfile_update p t) tbl ps)"
    and "distinct (map profile_key ps)" and "p \<in> set ps" and "profile_key r = profile_key p"
  shows "years_of_experience r = years_of_experience p"
  using assms
proof (induction ps arbitrary: tbl)
  case Nil
  then show ?case by simp
next
  case (Cons q ps)
  show ?case
  proof (cases "p = q")
    case True
    from Cons.prems True have "profile_key r \<notin> set (map profile_key ps)" by auto
    with Cons.prems(1) have "r \<in> set (CompetenceProfile_update q tbl)"
      using updates_leave_other_keys [of r "CompetenceProfile_update q tbl" ps] by simp
    with True Cons.prems(4) show ?thesis
      by (auto simp: CompetenceProfile_update_def profile_key_def split: if_splits)
  next
    case False
    with Cons.prems have "p \<in> set ps" and "distinct (map profile_key ps)" by auto
    with Cons.prems(1,4) show ?thesis
      using Cons.IH [of "CompetenceProfile_update q tbl"] by simp
  qed
qed

lemma submitApplication_resubmission_in_time:
  assumes ok: "submitApplication sch reached d s = (Inr res, d')"
    and reached: "\<forall>i<length (sub_competencies s). reached i"
    and cs: "distinct (map c_competence_id (sub_competencies s))"
    and pk: "distinct (map profile_key (competence_profiles d))"
    and p: "find (\<lambda>p. username p = sub_username s) (persons d) = Some p"
    and c: "c \<in> set (sub_competencies s)"
  shows "filter (\<lambda>r. cp_person_id r = Some (person_id p) \<and> competence_id r = c_competence_id c)
           (competence_profiles d') =
         [\<lparr>cp_person_id = Some (person_id p), competence_id = c_competence_id c,
           years_of_experience = c_years_of_experience c\<rparr>]"
proof -
  let ?row = "\<lambda>c. \<lparr>cp_person_id = Some (person_id p), competence_id = c_competence_id c,
                   years_of_experience = c_years_of_experience c\<rparr>"
  let ?rows = "map ?row (sub_competencies s)"
  from submitApplication_success [OF ok] p obtain created where
    created: "CompetenceProfile_bulkCreate sch ?rows (competence_profiles d) = Inr created"
    and profiles: "competence_profiles d' = fire_updates reached 0 ?rows created"
    by auto
  from created have cr: "created = foldl insert_ignore (competence_profiles d) ?rows"
    by (auto simp: CompetenceProfile_bulkCreate_def split: option.splits)
  from reached have upd: "competence_profiles d' = foldl (\<lambda>t p. CompetenceProfile_update p t) created ?rows"
    unfolding profiles by (intro fire_updates_in_time) simp
  have keys: "map profile_key (competence_profiles d') = map profile_key created"
    unfolding profiles by (rule keys_fire_updates)
  have dist: "distinct (map profile_key (competence_profiles d'))"
    unfolding keys cr using pk by (rule distinct_foldl_insert_ignore)
  have rows_keys: "map profile_key ?rows = map (Pair (Some (person_id p))) (map c_competence_id (sub_competencies s))"
    by (simp add: profile_key_def o_def)
  have dist_rows: "distinct (map profile_key ?rows)"
    unfolding rows_keys using cs by (simp add: distinct_map inj_on_def)
  have "Pair (Some (person_id p)) ` set [c_competence_id c] \<subseteq> set (map profile_key (competence_profiles d'))"
    unfolding keys cr keys_foldl_insert_ignore rows_keys using c by auto
  from count_profiles [OF dist _ this]
  have one: "length (filter (\<lambda>r. cp_person_id r = Some (person_id p) \<and> competence_id r = c_competence_id c)
                 (competence_profiles d')) = 1"
    by simp
  then obtain r where r: "filter (\<lambda>r. cp_person_id r = Some (person_id p) \<and> competence_id r = c_competence_id c)
                 (competence_profiles d') = [r]"
    by (auto simp: length_Suc_conv)
  then have "r \<in> set (filter (\<lambda>r. cp_person_id r = Some (person_id p) \<and> competence_id r = c_competence_id c)
                 (competence_profiles d'))"
    by simp
  then have mem: "r \<in> set (competence_profiles d')"
    and key: "cp_person_id r = Some (person_id p)" "competence_id r = c_competence_id c"
    by auto
  from c have "?row c \<in> set ?rows" by simp
  moreover have "profile_key r = profile_key (?row c)"
    using key by (simp add: profile_key_def)
  ultimately have "years_of_experience r = years_of_experience (?row c)"
    using updates_set_years [OF mem [unfolded upd] dist_rows] by blast
  with key have "r = ?row c" by simp
  with r show ?thesis by simp
qed

lemma foldl_insert_ignore_extends: "\<exists>added. foldl insert_ignore tbl rows = tbl @ added"
proof (induction rows arbitrary: tbl)
  case Nil
  show ?case by simp
next
  case (Cons r rows)
  from Cons.IH [of "insert_ignore tbl r"] obtain added
    where added: "foldl insert_ignore (insert_ignore tbl r) rows = insert_ignore tbl r @ added"
    by blast
  have "insert_ignore tbl r = tbl \<or> insert_ignore tbl r = tbl @ [r]"
    by (simp add: insert_ignore_def)
  then show ?case
  proof
    assume "insert_ignore tbl r = tbl"
    with added show ?thesis by simp
  next
    assume "insert_ignore tbl r = tbl @ [r]"
    with added show ?thesis by simp
  qed
qed

lemma submitApplication_updates_lost:
  assumes ok: "submitApplication sch reached d s = (Inr res, d')"
    and lost: "\<forall>i<length (sub_competencies s). \<not> reached i"
  shows "\<exists>added. competence_profiles d' = competence_profiles d @ added"
proof -
  from submitApplication_success [OF ok] obtain p created where
    "find (\<lambda>p. username p = sub_username s) (persons d) = Some p"
    and created: "CompetenceProfile_bulkCreate sch
        (map (\<lambda>c. \<lparr>cp_person_id = Some (person_id p), competence_id = c_competence_id c,
                   years_of_experience = c_years_of_experience c\<rparr>) (sub_competencies s))
        (competence_profiles d) = Inr created"
    and profiles: "competence_profiles d' =
       fire_updates reached 0
         (map (\<lambda>c. \<lparr>cp_person_id = Some (person_id p), competence_id = c_competence_id c,
                   years_of_experience = c_years_of_experience c\<rparr>) (sub_competencies s)) created"
    by blast
  from lost have "competence_profiles d' = created"
    unfolding profiles by (intro fire_updates_lost) simp
  moreover from created have "created = foldl insert_ignore (competence_profiles d)
        (map (\<lambda>c. \<lparr>cp_person_id = Some (person_id p), competence_id = c_competence_id c,
                   years_of_experience = c_years_of_experience c\<rparr>) (sub_competencies s))"
    by (auto simp: CompetenceProfile_bulkCreate_def split: option.splits)
  ultimately show ?thesis
    using foldl_insert_ignore_extends by metis
qed

text \<open>
  C4. Alice has the profile of competence 3 with 2 years. She submits competence 4 with
  1 year and competence 3 with 9 years, with no period, and neither update reaches the
  transaction before the commit. The call returns \<^verbatim>\<open>"success"\<close>. The row of
  competence 4 is in the table, and the row of competence 3 still says 2 years: the
  update of competence 3, a step of the submission, has failed, nothing was rolled
  back and no error came up. The submission is half applied.
\<close>

theorem submitApplication_half_applied:
  "submitApplication date_schema (\<lambda>i. False) db_submitted mixed_submission =
     (Inr ''success'', db_half_applied) \<and>
   map c_competence_id (sub_competencies mixed_submission) = [4, 3] \<and>
   map c_years_of_experience (sub_competencies mixed_submission) = [1, 9] \<and>
   map competence_id (competence_profiles db_half_applied) = [3, 4] \<and>
   map years_of_experience (competence_profiles db_half_applied) = [2, 1]"
  by (simp add: submit_defs example_defs)

text \<open>
  C6. Alice has submitted competence 3 with 2 years. She submits it again with 5 years
  and no period, and the update the call starts does not reach the transaction before
  the commit: the call returns \<^verbatim>\<open>"success"\<close> and the row still says 2 years. The
  promises of the updates are never awaited, so nothing in the function makes the
  commit wait for them. When none arrives in time every row that was in the table is
  left as it was (\<open>submitApplication_updates_lost\<close>); when all do, the row holds the
  submitted value (\<open>submitApplication_resubmission_in_time\<close>).
\<close>

theorem submitApplication_resubmission_lost:
  "submitApplication date_schema (\<lambda>i. True) db_alice first_submission = (Inr ''success'', db_submitted) \<and>
   submitApplication date_schema (\<lambda>i. False) db_submitted resubmission = (Inr ''success'', db_submitted) \<and>
   map c_years_of_experience (sub_competencies resubmission) = [5] \<and>
   map years_of_experience (competence_profiles db_submitted) = [2]"
  by (simp add: submit_defs example_defs)

subsection \<open>Registration and login\<close>

text \<open>
  C8. When \<^verbatim>\<open>savePerson\<close> succeeds, the person table has one more row, with the
  fields of the input and the role 2; when it fails, the database is unchanged; and
  the outcome does not depend on the role the caller supplied.
\<close>

theorem savePerson_applicant_role:
  "(\<forall>res d'. savePerson sch d person = (Inr res, d') \<longrightarrow>
      (\<exists>row. persons d' = persons d @ [row] \<and> role_id row = Some 2 \<and>
             name row = in_name person \<and> surname row = in_surname person \<and>
             ssn row = in_ssn person \<and> email row = in_email person \<and>
             password row = in_password person \<and> username row = in_username person)) \<and>
   (\<forall>e d'. savePerson sch d person = (Inl e, d') \<longrightarrow> d' = d) \<and>
   savePerson sch d (person\<lparr>in_role_id := supplied\<rparr>) = savePerson sch d person"
  by (auto simp: savePerson_def Person_create_def Let_def split: option.splits sum.splits)

theorem savePerson_applicant_role_witness:
  "savePerson date_schema db_alice bob_input =
     (Inr ''success'', db_alice\<lparr>persons := [alice, bob], person_seq := 3\<rparr>) \<and>
   in_role_id bob_input = Some 1 \<and> role_id bob = Some 2 \<and>
   savePerson date_schema db_alice (bob_input\<lparr>in_role_id := None\<rparr>) =
   savePerson date_schema db_alice bob_input"
  using savePerson_applicant_role [of date_schema db_alice bob_input None]
  by (simp add: savePerson_def Person_create_def example_defs)

text \<open>
  C10. \<^verbatim>\<open>login\<close> returns \<^verbatim>\<open>null\<close> when no person has the username and the
  password, and otherwise the DTO of the first such person, in which the username, the
  email and the role are the person's and the id, the name, the surname, the ssn and
  the password are \<^verbatim>\<open>undefined\<close>.
\<close>

theorem login_projection:
  "login d c =
     map_option
       (\<lambda>p. \<lparr>dto_person_id = None, dto_name = None, dto_surname = None, dto_ssn = None,
              dto_email = Some (email p), dto_password = None, dto_role_id = role_id p,
              dto_username = Some (username p)\<rparr>)
       (find (\<lambda>p. username p = cred_username c \<and> password p = cred_password c) (persons d)) \<and>
   ((\<forall>p\<in>set (persons d). \<not> (username p = cred_username c \<and> password p = cred_password c)) \<longrightarrow>
      login d c = None) \<and>
   (\<forall>dto. login d c = Some dto \<longrightarrow>
      dto_password dto = None \<and> dto_ssn dto = None \<and> dto_name dto = None \<and>
      dto_surname dto = None \<and> dto_person_id dto = None \<and>
      (\<exists>p\<in>set (persons d). username p = cred_username c \<and> password p = cred_password c \<and>
          dto_username dto = Some (username p) \<and> dto_email dto = Some (email p) \<and>
          dto_role_id dto = role_id p))"
proof -
  have eq: "login d c =
     map_option
       (\<lambda>p. \<lparr>dto_person_id = None, dto_name = None, dto_surname = None, dto_ssn = None,
              dto_email = Some (email p), dto_password = None, dto_role_id = role_id p,
              dto_username = Some (username p)\<rparr>)
       (find (\<lambda>p. username p = cred_username c \<and> password p = cred_password c) (persons d))"
    by (simp add: login_def Person_findOne_def createPersonDto_def select_attributes_def
        split: option.splits)
  have none: "(\<forall>p\<in>set (persons d). \<not> (username p = cred_username c \<and> password p = cred_password c)) \<longrightarrow>
      login d c = None"
    unfolding eq by (simp add: find_None_iff)
  have some: "\<forall>dto. login d c = Some dto \<longrightarrow>
      dto_password dto = None \<and> dto_ssn dto = None \<and> dto_name dto = None \<and>
      dto_surname dto = None \<and> dto_person_id dto = None \<and>
      (\<exists>p\<in>set (persons d). username p = cred_username c \<and> password p = cred_password c \<and>
          dto_username dto = Some (username p) \<and> dto_email dto = Some (email p) \<and>
          dto_role_id dto = role_id p)"
    unfolding eq by (auto dest!: find_holds)
  from eq none some show ?thesis by blast
qed

theorem login_projection_witness:
  "login db_alice \<lparr>cred_username = ''alice'', cred_password = ''secret''\<rparr> =
     Some \<lparr>dto_person_id = None, dto_name = None, dto_surname = None, dto_ssn = None,
           dto_email = Some ''alice@example.com'', dto_password = None, dto_role_id = Some 2,
           dto_username = Some ''alice''\<rparr> \<and>
   login db_alice \<lparr>cred_username = ''alice'', cred_password = ''guess''\<rparr> = None"
  using login_projection [of db_alice "\<lparr>cred_username = ''alice'', cred_password = ''secret''\<rparr>"]
    login_projection [of db_alice "\<lparr>cred_username = ''alice'', cred_password = ''guess''\<rparr>"]
  by (simp add: example_defs)

subsection \<open>Errors of the operations\<close>

text \<open>
  The operations with a \<^verbatim>\<open>try\<close> around their body throw one kind of error, an
  \<^verbatim>\<open>Error\<close> whose message starts with the prefix of the operation.
\<close>

lemma errors_under_prefix:
  "(fst (updateApplication between d r) = Inl e \<longrightarrow> (\<exists>m. e = Error (''Could not update application'' @ m))) \<and>
   (fst (submitApplication sch reached d s) = Inl e \<longrightarrow> (\<exists>m. e = Error (''Failed to submit application.'' @ m))) \<and>
   (fst (savePerson sch d person) = Inl e \<longrightarrow> (\<exists>m. e = Error (''Could not create person.'' @ m)))"
  by (auto simp: updateApplication_def updateApplication_read_def updateApplication_catch_def submitApplication_def savePerson_def
      split: sum.splits option.splits if_splits)

lemma findPersonIdByAuth_no_key:
  "findPersonIdByAuth d \<lparr>auth_username = None, auth_email = None\<rparr> =
     Inl (ReferenceError ''error is not defined'')"
  by (simp add: findPersonIdByAuth_def auth_key_def truthy_def not_defined_message_def)

text \<open>
  C9. \<^verbatim>\<open>findPersonIdByAuth\<close> throws errors of the engine as they are: with neither a
  username nor an email, the ReferenceError of its own \<^verbatim>\<open>throw\<close> statement, which
  reads \<^verbatim>\<open>error.message\<close> outside any \<^verbatim>\<open>catch\<close>; with the username of no person,
  the TypeError of destructuring \<^verbatim>\<open>null\<close>. Neither carries the prefix
  \<^verbatim>\<open>could not find person.\<close> that the statement was written to give.
\<close>

theorem findPersonIdByAuth_unwrapped:
  "findPersonIdByAuth db_alice \<lparr>auth_username = None, auth_email = None\<rparr> =
     Inl (ReferenceError ''error is not defined'') \<and>
   findPersonIdByAuth db_alice \<lparr>auth_username = Some ''bob'', auth_email = None\<rparr> =
     Inl (TypeError ''Cannot destructure property 'person_id' of '(intermediate value)' as it is null.'') \<and>
   findPersonIdByAuth db_alice \<lparr>auth_username = Some ''alice'', auth_email = None\<rparr> = Inr (Some 1)"
  by (simp add: findPersonIdByAuth_def auth_key_def truthy_def not_defined_message_def
      destructure_null_message_def findPersonByParameter_def Person_findOne_def
      person_column_def createPersonDto_def select_attributes_def Person_attributes_def
      example_defs)

end
